theory Spec2Isabelle
  imports Main
begin

section \<open>ChatManager: the thread/message synchronisation core\<close>

text \<open>
  The component \<^verbatim>\<open>ChatManager\<close> (ChatManager.tsx) keeps five pieces of React state and
  exposes three asynchronous operations; two effects re-fetch threads and messages.
  Strings are lists of characters; a \<^typ>\<open>char\<close> stands for the UTF-16 code unit of the
  same number, so the model covers the strings whose code units are below 256.
\<close>

subsection \<open>Data model\<close>

text \<open>The interfaces \<^verbatim>\<open>Thread\<close> and \<^verbatim>\<open>Message\<close>. Field names that occur in both
  interfaces, or that name a HOL constant, carry the suffix \<open>_t\<close> or \<open>_m\<close>.\<close>

record message =
  id_m :: string
  thread_id :: string
  user_id_m :: string
  is_user :: bool
  content :: string
  created_at_m :: string

record thread =
  id_t :: string
  user_id_t :: string
  title :: string
  created_at_t :: string
  updated_at :: string

text \<open>The five \<^verbatim>\<open>useState\<close> cells of the component.\<close>

record chat_state =
  threads :: "thread list"
  messages :: "message list"
  activeThreadId :: "string option"
  isLoading :: bool
  error :: "string option"

text \<open>The initial values given to \<^verbatim>\<open>useState\<close>.\<close>

definition initial_state :: chat_state where
  "initial_state =
     \<lparr>threads = [], messages = [], activeThreadId = None, isLoading = True, error = None\<rparr>"

text \<open>
  JavaScript truthiness of a value of type \<^verbatim>\<open>string | null | undefined\<close>: \<^verbatim>\<open>null\<close>,
  \<^verbatim>\<open>undefined\<close> and the empty string are falsy. \<^verbatim>\<open>user?.id\<close> and
  \<^verbatim>\<open>activeThreadId\<close> are such values.
\<close>

definition truthy :: "string option \<Rightarrow> bool" where
  "truthy v = (case v of None \<Rightarrow> False | Some s \<Rightarrow> s \<noteq> [])"

text \<open>
  \<^verbatim>\<open>String.prototype.trim\<close>: the white space and line terminator code units below 256
  are TAB, LF, VT, FF, CR, SP and NBSP.
\<close>

definition is_ws :: "char \<Rightarrow> bool" where
  "is_ws c = (of_char c \<in> {9, 10, 11, 12, 13, 32, 160 :: nat})"

definition trim :: "string \<Rightarrow> string" where
  "trim s = rev (dropWhile is_ws (rev (dropWhile is_ws s)))"

subsection \<open>The gateway\<close>

text \<open>The five GraphQL operations with their variables.\<close>

datatype request =
    GetThreads string
  | GetMessages string
  | CreateThread string string
  | CreateMessage string string bool string
  | UpdateThreadTimestamp string

text \<open>
  The \<^verbatim>\<open>data\<close> object of a response. Each field is \<open>None\<close> when the object does not
  have it (or has \<^verbatim>\<open>null\<close> there).
\<close>

record gql_data =
  d_threads :: "thread list option"
  d_messages :: "message list option"
  insert_threads_one :: "thread option"
  insert_messages_one :: "message option"
  update_threads_by_pk :: "(string \<times> string) option"

datatype gql_error = GqlError string

text \<open>
  What \<^verbatim>\<open>await nhost.graphql.request(...)\<close> gives: the promise rejects (the \<^verbatim>\<open>await\<close>
  throws, transport failure), or it resolves to \<^verbatim>\<open>{ data, error }\<close>, where \<^verbatim>\<open>data\<close> and
  \<^verbatim>\<open>error\<close> may each be \<^verbatim>\<open>null\<close>. An error object is always truthy.
\<close>

datatype response = Rejected | Resolved "gql_data option" "gql_error option"

text \<open>\<^verbatim>\<open>data?.f\<close> for a field \<open>f\<close>.\<close>

definition opt_field :: "(gql_data \<Rightarrow> 'a option) \<Rightarrow> gql_data option \<Rightarrow> 'a option" where
  "opt_field f d = (case d of None \<Rightarrow> None | Some obj \<Rightarrow> f obj)"

text \<open>\<^verbatim>\<open>data?.f || []\<close> for an array field: an array, even an empty one, is truthy.\<close>

definition or_empty :: "'a list option \<Rightarrow> 'a list" where
  "or_empty v = (case v of None \<Rightarrow> [] | Some xs \<Rightarrow> xs)"

subsection \<open>Asynchronous functions\<close>

text \<open>
  An \<^verbatim>\<open>async\<close> function is a tree: it returns, or it queues a state update and goes on,
  or it suspends at an \<^verbatim>\<open>await\<close> on a gateway request and goes on with the response.
  A state update is a function on the state at the time the update is applied (React's
  \<^verbatim>\<open>setX(v)\<close> and \<^verbatim>\<open>setX(prev => ...)\<close>); the values the closure captured at the
  render that created it (\<^verbatim>\<open>user\<close>, \<^verbatim>\<open>activeThreadId\<close>) are parameters of the function.
\<close>

datatype 'r proc =
    Return 'r
  | Update "chat_state \<Rightarrow> chat_state" "'r proc"
  | Await request "response \<Rightarrow> 'r proc"

definition setThreads :: "thread list \<Rightarrow> chat_state \<Rightarrow> chat_state" where
  "setThreads v s = s\<lparr>threads := v\<rparr>"

definition setMessages :: "message list \<Rightarrow> chat_state \<Rightarrow> chat_state" where
  "setMessages v s = s\<lparr>messages := v\<rparr>"

definition setActiveThreadId :: "string option \<Rightarrow> chat_state \<Rightarrow> chat_state" where
  "setActiveThreadId v s = s\<lparr>activeThreadId := v\<rparr>"

definition setIsLoading :: "bool \<Rightarrow> chat_state \<Rightarrow> chat_state" where
  "setIsLoading v s = s\<lparr>isLoading := v\<rparr>"

definition setError :: "string option \<Rightarrow> chat_state \<Rightarrow> chat_state" where
  "setError v s = s\<lparr>error := v\<rparr>"

text \<open>
  \<^verbatim>\<open>fetchThreads\<close> (lines 107-137). The \<^verbatim>\<open>finally\<close> block runs on every path that
  entered the \<^verbatim>\<open>try\<close>.
\<close>

definition fetchThreads :: "string option \<Rightarrow> string option \<Rightarrow> unit proc" where
  "fetchThreads user_id active =
     (case user_id of
        None \<Rightarrow> Return ()
      | Some uid \<Rightarrow>
          if uid = [] then Return ()
          else
            Update (setIsLoading True) (
            Update (setError None) (
            Await (GetThreads uid) (\<lambda>res.
              case res of
                Rejected \<Rightarrow>
                  Update (setError (Some ''Failed to connect to the database.'')) (
                  Update (setIsLoading False) (Return ()))
              | Resolved data err \<Rightarrow>
                  (case err of
                     Some e \<Rightarrow>
                       Update (setError (Some
                         ''Failed to fetch threads. Make sure GraphQL permissions are set up correctly.'')) (
                       Update (setIsLoading False) (Return ()))
                   | None \<Rightarrow>
                       (let fetchedThreads = or_empty (opt_field d_threads data) in
                        Update (setThreads fetchedThreads) (
                          if \<not> truthy active \<and> length fetchedThreads > 0
                          then Update (setActiveThreadId (Some (id_t (fetchedThreads ! 0)))) (
                               Update (setIsLoading False) (Return ()))
                          else Update (setIsLoading False) (Return ()))))))))"

text \<open>\<^verbatim>\<open>fetchMessages\<close> (lines 146-167).\<close>

definition fetchMessages :: "string option \<Rightarrow> unit proc" where
  "fetchMessages active =
     (case active of
        None \<Rightarrow> Update (setMessages []) (Return ())
      | Some tid \<Rightarrow>
          if tid = [] then Update (setMessages []) (Return ())
          else
            Await (GetMessages tid) (\<lambda>res.
              case res of
                Rejected \<Rightarrow> Update (setError (Some ''Failed to fetch messages.'')) (Return ())
              | Resolved data err \<Rightarrow>
                  (case err of
                     Some e \<Rightarrow> Update (setError (Some ''Failed to fetch messages.'')) (Return ())
                   | None \<Rightarrow>
                       Update (setMessages (or_empty (opt_field d_messages data))) (Return ()))))"

text \<open>
  \<^verbatim>\<open>createThread\<close> (lines 172-210). The title is what \<^verbatim>\<open>now.toLocaleString(...)\<close>
  gave; it is a parameter.
\<close>

definition createThread :: "string option \<Rightarrow> string \<Rightarrow> string option proc" where
  "createThread user_id ttl =
     (case user_id of
        None \<Rightarrow> Return None
      | Some uid \<Rightarrow>
          if uid = [] then Return None
          else
            Await (CreateThread uid ttl) (\<lambda>res.
              case res of
                Rejected \<Rightarrow> Update (setError (Some ''Failed to create thread.'')) (Return None)
              | Resolved data err \<Rightarrow>
                  (case err of
                     Some e \<Rightarrow> Update (setError (Some ''Failed to create thread.'')) (Return None)
                   | None \<Rightarrow>
                       (case opt_field insert_threads_one data of
                          Some newThread \<Rightarrow>
                            Update (\<lambda>s. s\<lparr>threads := newThread # threads s\<rparr>) (
                            Update (setActiveThreadId (Some (id_t newThread))) (
                            Update (setMessages []) (
                            Return (Some (id_t newThread)))))
                        | None \<Rightarrow> Return None))))"

text \<open>\<^verbatim>\<open>selectThread\<close> (lines 212-214).\<close>

definition selectThread :: "string \<Rightarrow> unit proc" where
  "selectThread threadId = Update (setActiveThreadId (Some threadId)) (Return ())"

text \<open>
  \<^verbatim>\<open>sendMessage\<close> (lines 216-275). \<open>now\<close> is what \<^verbatim>\<open>new Date().toISOString()\<close> gives
  when the thread updater runs. The response of the third request is not looked at; only
  its rejection reaches the \<^verbatim>\<open>catch\<close>.
\<close>

definition sendMessage :: "string option \<Rightarrow> string option \<Rightarrow> string \<Rightarrow> string \<Rightarrow> unit proc" where
  "sendMessage user_id active text now =
     (case (user_id, active) of
        (Some uid, Some tid) \<Rightarrow>
          if uid = [] \<or> tid = [] \<or> trim text = [] then Return ()
          else
            Await (CreateMessage tid uid True (trim text)) (\<lambda>res1.
              case res1 of
                Rejected \<Rightarrow> Update (setError (Some ''Failed to send message.'')) (Return ())
              | Resolved userMessageData userMessageError \<Rightarrow>
                  (case userMessageError of
                     Some e \<Rightarrow> Update (setError (Some ''Failed to send message.'')) (Return ())
                   | None \<Rightarrow>
                       Await (CreateMessage tid uid False (trim text)) (\<lambda>res2.
                         case res2 of
                           Rejected \<Rightarrow>
                             Update (setError (Some ''Failed to send message.'')) (Return ())
                         | Resolved botMessageData botMessageError \<Rightarrow>
                             (case botMessageError of
                                Some e \<Rightarrow>
                                  Update (setError (Some ''Failed to create bot response.'')) (Return ())
                              | None \<Rightarrow>
                                  Await (UpdateThreadTimestamp tid) (\<lambda>res3.
                                    case res3 of
                                      Rejected \<Rightarrow>
                                        Update (setError (Some ''Failed to send message.'')) (Return ())
                                    | Resolved d3 e3 \<Rightarrow>
                                        (case (opt_field insert_messages_one userMessageData,
                                               opt_field insert_messages_one botMessageData) of
                                           (Some userMessage, Some botMessage) \<Rightarrow>
                                             Update (\<lambda>s. s\<lparr>messages := messages s @ [userMessage, botMessage]\<rparr>) (
                                             Update (\<lambda>s. s\<lparr>threads :=
                                               map (\<lambda>thread. if id_t thread = tid
                                                              then thread\<lparr>updated_at := now\<rparr>
                                                              else thread) (threads s)\<rparr>) (
                                             Return ()))
                                         | _ \<Rightarrow> Return ()))))))
      | _ \<Rightarrow> Return ())"

subsection \<open>Running one asynchronous function\<close>

text \<open>
  \<open>exec p rs s\<close> runs \<open>p\<close> from state \<open>s\<close>, answering its requests in turn with the
  responses \<open>rs\<close>. It gives the state reached, the requests issued in order, and the
  returned value, or \<open>None\<close> while the function is suspended at a request that has no
  response yet.
\<close>

primrec exec :: "'r proc \<Rightarrow> response list \<Rightarrow> chat_state \<Rightarrow> chat_state \<times> request list \<times> 'r option" where
  "exec (Return r) = (\<lambda>rs s. (s, [], Some r))"
| "exec (Update f p) = (\<lambda>rs s. exec p rs (f s))"
| "exec (Await q k) = (\<lambda>rs s.
     case rs of
       [] \<Rightarrow> (s, [q], None)
     | r # rs' \<Rightarrow> (case exec (k r) rs' s of (s', qs, res) \<Rightarrow> (s', q # qs, res)))"

subsection \<open>The component among its pending requests\<close>

text \<open>
  Several asynchronous functions can be suspended at the same time, and their requests
  resolve in any order. A world is the component's state together with the requests in
  flight, oldest first, each with the continuation of the function that awaits it.
\<close>

datatype 'r status = Finished 'r | Suspended request "response \<Rightarrow> 'r proc"

primrec advance :: "'r proc \<Rightarrow> chat_state \<Rightarrow> chat_state \<times> 'r status" where
  "advance (Return r) = (\<lambda>s. (s, Finished r))"
| "advance (Update f p) = (\<lambda>s. advance p (f s))"
| "advance (Await q k) = (\<lambda>s. (s, Suspended q k))"

text \<open>The caller of \<open>void p\<close> drops the value \<open>p\<close> returns.\<close>

primrec void :: "'r proc \<Rightarrow> unit proc" where
  "void (Return r) = Return ()"
| "void (Update f p) = Update f (void p)"
| "void (Await q k) = Await q (\<lambda>r. void (k r))"

record world =
  view :: chat_state
  inflight :: "(request \<times> (response \<Rightarrow> unit proc)) list"

text \<open>Run a function up to its next \<^verbatim>\<open>await\<close>; a suspended one joins the requests in flight.\<close>

definition start :: "unit proc \<Rightarrow> world \<Rightarrow> world" where
  "start p w =
     (case advance p (view w) of
        (s, Finished u) \<Rightarrow> w\<lparr>view := s\<rparr>
      | (s, Suspended q k) \<Rightarrow> w\<lparr>view := s, inflight := inflight w @ [(q, k)]\<rparr>)"

text \<open>The request at position \<open>i\<close> resolves with \<open>r\<close>: its function goes on.\<close>

definition settle :: "nat \<Rightarrow> response \<Rightarrow> world \<Rightarrow> world" where
  "settle i r w =
     (if i < length (inflight w)
      then start (snd (inflight w ! i) r)
             (w\<lparr>inflight := take i (inflight w) @ drop (Suc i) (inflight w)\<rparr>)
      else w)"

text \<open>
  The two \<^verbatim>\<open>useEffect\<close> bodies (lines 106-142 and 145-170), in the order of the source.
  Both have \<^verbatim>\<open>activeThreadId\<close> among their dependencies, and each captures the value of
  the render it runs after. Neither returns a cleanup function.
\<close>

definition effects :: "string option \<Rightarrow> world \<Rightarrow> world" where
  "effects user_id w =
     (let active = activeThreadId (view w);
          w1 = (if truthy user_id then start (fetchThreads user_id active) w else w)
      in start (fetchMessages active) w1)"

text \<open>The first render: both effects run after it.\<close>

definition mount :: "string option \<Rightarrow> world" where
  "mount user_id = effects user_id \<lparr>view = initial_state, inflight = []\<rparr>"

text \<open>
  What can happen next: the presentation layer calls one of the three operations (with
  the closure of the latest render), or a request in flight resolves.
\<close>

datatype event =
    Select string
  | Create string
  | Send string string
  | Settle nat response

text \<open>
  One event, then the render it causes: the effects run again when \<^verbatim>\<open>activeThreadId\<close>
  differs from its value at the previous render. The signed-in user stays the same.
\<close>

definition handle :: "string option \<Rightarrow> event \<Rightarrow> world \<Rightarrow> world" where
  "handle user_id ev w =
     (case ev of
        Select threadId \<Rightarrow> start (selectThread threadId) w
      | Create ttl \<Rightarrow> start (void (createThread user_id ttl)) w
      | Send text now \<Rightarrow> start (sendMessage user_id (activeThreadId (view w)) text now) w
      | Settle i r \<Rightarrow> settle i r w)"

definition step :: "string option \<Rightarrow> event \<Rightarrow> world \<Rightarrow> world" where
  "step user_id ev w =
     (let w' = handle user_id ev w
      in if activeThreadId (view w') \<noteq> activeThreadId (view w) then effects user_id w' else w')"

fun run :: "string option \<Rightarrow> event list \<Rightarrow> world \<Rightarrow> world" where
  "run user_id [] w = w"
| "run user_id (ev # evs) w = run user_id evs (step user_id ev w)"

subsection \<open>Vocabulary of the properties\<close>

text \<open>
  A request fails when its promise rejects (transport failure) or when the response
  carries an error object (gateway-reported error).
\<close>

definition failed :: "response \<Rightarrow> bool" where
  "failed r = (case r of Rejected \<Rightarrow> True | Resolved d e \<Rightarrow> e \<noteq> None)"

text \<open>
  The requests the first effect issues when it runs: the thread fetch when there is a
  user, none otherwise.
\<close>

definition thread_fetch :: "string option \<Rightarrow> request list" where
  "thread_fetch user_id =
     (case user_id of None \<Rightarrow> [] | Some uid \<Rightarrow> if uid = [] then [] else [GetThreads uid])"

text \<open>The continuation of \<open>fetchMessages\<close> after its \<^verbatim>\<open>await\<close>, under a name.\<close>

definition messages_reply :: "response \<Rightarrow> unit proc" where
  "messages_reply res =
     (case res of
        Rejected \<Rightarrow> Update (setError (Some ''Failed to fetch messages.'')) (Return ())
      | Resolved data err \<Rightarrow>
          (case err of
             Some e \<Rightarrow> Update (setError (Some ''Failed to fetch messages.'')) (Return ())
           | None \<Rightarrow> Update (setMessages (or_empty (opt_field d_messages data))) (Return ())))"

subsection \<open>A concrete session\<close>

text \<open>User \<open>u1\<close> with two threads; \<open>t1\<close> is the active one.\<close>

definition thread_t1 :: thread where
  "thread_t1 = \<lparr>id_t = ''t1'', user_id_t = ''u1'', title = ''Jan 5, 3:45 PM'',
                created_at_t = ''2024-01-05T15:45:00Z'', updated_at = ''2024-01-05T15:45:00Z''\<rparr>"

definition thread_t2 :: thread where
  "thread_t2 = \<lparr>id_t = ''t2'', user_id_t = ''u1'', title = ''Jan 6, 9:10 AM'',
                created_at_t = ''2024-01-06T09:10:00Z'', updated_at = ''2024-01-06T09:10:00Z''\<rparr>"

definition thread_t3 :: thread where
  "thread_t3 = \<lparr>id_t = ''t3'', user_id_t = ''u1'', title = ''Jan 7, 1:05 PM'',
                created_at_t = ''2024-01-07T13:05:00Z'', updated_at = ''2024-01-07T13:05:00Z''\<rparr>"

definition user_msg :: message where
  "user_msg = \<lparr>id_m = ''m1'', thread_id = ''t1'', user_id_m = ''u1'', is_user = True,
               content = ''hello'', created_at_m = ''2024-01-07T10:00:00Z''\<rparr>"

definition bot_msg :: message where
  "bot_msg = \<lparr>id_m = ''m2'', thread_id = ''t1'', user_id_m = ''u1'', is_user = False,
              content = ''hello'', created_at_m = ''2024-01-07T10:00:01Z''\<rparr>"

definition other_msg :: message where
  "other_msg = \<lparr>id_m = ''m9'', thread_id = ''t2'', user_id_m = ''u1'', is_user = True,
                content = ''bye'', created_at_m = ''2024-01-06T09:11:00Z''\<rparr>"

definition session :: chat_state where
  "session = \<lparr>threads = [thread_t2, thread_t1], messages = [], activeThreadId = Some ''t1'',
               isLoading = False, error = None\<rparr>"

definition no_data :: gql_data where
  "no_data = \<lparr>d_threads = None, d_messages = None, insert_threads_one = None,
               insert_messages_one = None, update_threads_by_pk = None\<rparr>"

text \<open>Responses without error: a created message row, a created thread row, a message list.\<close>

definition message_row :: "message \<Rightarrow> response" where
  "message_row m = Resolved (Some (no_data\<lparr>insert_messages_one := Some m\<rparr>)) None"

definition thread_row :: "thread \<Rightarrow> response" where
  "thread_row t = Resolved (Some (no_data\<lparr>insert_threads_one := Some t\<rparr>)) None"

definition message_rows :: "message list \<Rightarrow> response" where
  "message_rows ms = Resolved (Some (no_data\<lparr>d_messages := Some ms\<rparr>)) None"

definition denied :: response where
  "denied = Resolved None (Some (GqlError ''permission denied''))"

section \<open>Properties\<close>

lemmas setters =
  setThreads_def setMessages_def setActiveThreadId_def setIsLoading_def setError_def

lemma failed_cases: "failed r \<Longrightarrow> r = Rejected \<or> (\<exists>d e. r = Resolved d (Some e))"
  by (cases r) (auto simp: failed_def)

lemma not_failed_cases: "\<not> failed r \<Longrightarrow> \<exists>d. r = Resolved d None"
  by (cases r) (auto simp: failed_def)

subsection \<open>Guards\<close>

text \<open>
  C3. When the user id is absent (or empty), the active thread id is absent (or empty),
  or the content is empty after trimming, \<open>sendMessage\<close> returns at once: it issues no
  request and leaves all five state cells, the error among them, as they were.
\<close>

theorem sendMessage_precondition_noop:
  "\<not> truthy user_id \<or> \<not> truthy active \<or> trim text = [] \<Longrightarrow>
   exec (sendMessage user_id active text now) rs s = (s, [], Some ())"
  by (auto simp: sendMessage_def truthy_def split: option.splits)

theorem sendMessage_precondition_noop_witness:
  "trim [CHR 0x20, CHR 0x09, CHR 0x0A, CHR 0xA0] = [] \<and>
   exec (sendMessage (Some ''u1'') (Some ''t1'') [CHR 0x20, CHR 0x09, CHR 0x0A, CHR 0xA0]
           ''2024-01-07T10:00:02Z'') [Rejected] session = (session, [], Some ()) \<and>
   \<not> truthy None \<and>
   exec (sendMessage None (Some ''t1'') ''hello'' ''2024-01-07T10:00:02Z'') [Rejected] session
     = (session, [], Some ()) \<and>
   exec (sendMessage (Some ''u1'') None ''hello'' ''2024-01-07T10:00:02Z'') [Rejected] session
     = (session, [], Some ())"
proof -
  have blank: "trim [CHR 0x20, CHR 0x09, CHR 0x0A, CHR 0xA0] = []"
    by (simp add: trim_def is_ws_def)
  have absent: "\<not> truthy None"
    by (simp add: truthy_def)
  show ?thesis
    using blank absent
      sendMessage_precondition_noop [of "Some ''u1''" "Some ''t1''"
        "[CHR 0x20, CHR 0x09, CHR 0x0A, CHR 0xA0]" "''2024-01-07T10:00:02Z''" "[Rejected]" session]
      sendMessage_precondition_noop [of None "Some ''t1''" "''hello''"
        "''2024-01-07T10:00:02Z''" "[Rejected]" session]
      sendMessage_precondition_noop [of "Some ''u1''" None "''hello''"
        "''2024-01-07T10:00:02Z''" "[Rejected]" session]
    by simp
qed

text \<open>
  C8. Without a user id \<open>createThread\<close> returns \<^verbatim>\<open>null\<close>, issues no request and leaves
  the state as it was.
\<close>

theorem createThread_no_user:
  "\<not> truthy user_id \<Longrightarrow> exec (createThread user_id ttl) rs s = (s, [], Some None)"
  by (auto simp: createThread_def truthy_def split: option.splits)

theorem createThread_no_user_witness:
  "\<not> truthy None \<and>
   exec (createThread None ''Jan 7, 1:05 PM'') [thread_row thread_t3] session
     = (session, [], Some None)"
proof -
  have absent: "\<not> truthy None"
    by (simp add: truthy_def)
  from createThread_no_user [OF absent] absent show ?thesis
    by simp
qed

lemma start_fetchThreads_request:
  "uid \<noteq> [] \<Longrightarrow>
   \<exists>k. start (fetchThreads (Some uid) active) w =
     w\<lparr>view := (view w)\<lparr>isLoading := True, error := None\<rparr>,
       inflight := inflight w @ [(GetThreads uid, k)]\<rparr>"
  by (auto simp: fetchThreads_def start_def setters)

lemma effects_no_active:
  assumes "\<not> truthy (activeThreadId (view w))"
  shows "messages (view (effects user_id w)) = [] \<and>
         map fst (inflight (effects user_id w)) = map fst (inflight w) @ thread_fetch user_id"
proof -
  have loader: "fetchMessages (activeThreadId (view w)) = Update (setMessages []) (Return ())"
    using assms by (auto simp: fetchMessages_def truthy_def split: option.splits)
  show ?thesis
  proof (cases "truthy user_id")
    case True
    then obtain uid where uid: "user_id = Some uid" "uid \<noteq> []"
      by (auto simp: truthy_def split: option.splits)
    from start_fetchThreads_request [OF uid(2), of "activeThreadId (view w)" w] obtain k where
      "start (fetchThreads (Some uid) (activeThreadId (view w))) w =
         w\<lparr>view := (view w)\<lparr>isLoading := True, error := None\<rparr>,
           inflight := inflight w @ [(GetThreads uid, k)]\<rparr>"
      by blast
    then show ?thesis
      using True uid
      by (simp add: effects_def loader start_def setters Let_def thread_fetch_def)
  next
    case False
    then have "thread_fetch user_id = []"
      by (auto simp: thread_fetch_def truthy_def split: option.splits)
    with False show ?thesis
      by (simp add: effects_def loader start_def setters Let_def)
  qed
qed

text \<open>
  C9. Called with no active thread id (\<^verbatim>\<open>null\<close>, or the empty string), \<open>fetchMessages\<close>
  sets the message set to the empty list and issues no request. The effects, run on a
  state with no active thread id, leave the message set empty and put nothing but the
  thread fetch in flight. So whenever an event changes the active thread id to an absent
  one, the render that follows empties the message set, and the only request it adds is
  the thread fetch: no message fetch is issued.
\<close>

theorem fetchMessages_no_active_thread:
  "(\<not> truthy active \<longrightarrow>
      exec (fetchMessages active) rs s = (s\<lparr>messages := []\<rparr>, [], Some ())) \<and>
   (\<not> truthy (activeThreadId (view w)) \<longrightarrow>
      messages (view (effects user_id w)) = [] \<and>
      map fst (inflight (effects user_id w)) = map fst (inflight w) @ thread_fetch user_id) \<and>
   (activeThreadId (view (handle user_id ev w)) \<noteq> activeThreadId (view w) \<and>
    \<not> truthy (activeThreadId (view (handle user_id ev w))) \<longrightarrow>
      messages (view (step user_id ev w)) = [] \<and>
      map fst (inflight (step user_id ev w))
        = map fst (inflight (handle user_id ev w)) @ thread_fetch user_id)"
proof -
  have call: "\<not> truthy active \<longrightarrow>
      exec (fetchMessages active) rs s = (s\<lparr>messages := []\<rparr>, [], Some ())"
    by (auto simp: fetchMessages_def truthy_def setters split: option.splits)
  have render: "step user_id ev w = effects user_id (handle user_id ev w)"
    if "activeThreadId (view (handle user_id ev w)) \<noteq> activeThreadId (view w)"
    using that by (simp add: step_def Let_def)
  show ?thesis
    using call effects_no_active [of w user_id]
      effects_no_active [of "handle user_id ev w" user_id] render
    by simp
qed

theorem fetchMessages_no_active_thread_witness:
  "\<not> truthy None \<and>
   exec (fetchMessages None) [message_rows [other_msg]] (session\<lparr>messages := [user_msg, bot_msg]\<rparr>)
     = (session, [], Some ()) \<and>
   activeThreadId (view (handle (Some ''u1'') (Select [])
       \<lparr>view = session\<lparr>messages := [user_msg, bot_msg]\<rparr>, inflight = []\<rparr>)) = Some [] \<and>
   activeThreadId (view \<lparr>view = session\<lparr>messages := [user_msg, bot_msg]\<rparr>, inflight = []\<rparr>)
     = Some ''t1'' \<and>
   \<not> truthy (Some []) \<and>
   messages (view (step (Some ''u1'') (Select [])
       \<lparr>view = session\<lparr>messages := [user_msg, bot_msg]\<rparr>, inflight = []\<rparr>)) = [] \<and>
   map fst (inflight (step (Some ''u1'') (Select [])
       \<lparr>view = session\<lparr>messages := [user_msg, bot_msg]\<rparr>, inflight = []\<rparr>)) = [GetThreads ''u1''] \<and>
   activeThreadId (view \<lparr>view = initial_state\<lparr>messages := [other_msg]\<rparr>, inflight = []\<rparr>)
     = None \<and>
   messages (view (effects (Some ''u1'')
       \<lparr>view = initial_state\<lparr>messages := [other_msg]\<rparr>, inflight = []\<rparr>)) = [] \<and>
   map fst (inflight (effects (Some ''u1'')
       \<lparr>view = initial_state\<lparr>messages := [other_msg]\<rparr>, inflight = []\<rparr>)) = [GetThreads ''u1'']"
proof -
  let ?w = "\<lparr>view = session\<lparr>messages := [user_msg, bot_msg]\<rparr>, inflight = []\<rparr>"
  have absent: "\<not> truthy None" "\<not> truthy (Some [])"
    by (simp_all add: truthy_def)
  have selected: "handle (Some ''u1'') (Select []) ?w
                  = ?w\<lparr>view := (view ?w)\<lparr>activeThreadId := Some []\<rparr>\<rparr>"
    by (simp add: handle_def selectThread_def start_def setters)
  have after: "activeThreadId (view (handle (Some ''u1'') (Select []) ?w)) = Some []"
    by (simp add: selected)
  have before: "activeThreadId (view ?w) = Some ''t1''"
    by (simp add: session_def)
  have idle: "inflight (handle (Some ''u1'') (Select []) ?w) = []"
    by (simp add: selected)
  have user: "thread_fetch (Some ''u1'') = [GetThreads ''u1'']"
    by (simp add: thread_fetch_def)
  have cleared: "session\<lparr>messages := []\<rparr> = session"
    by (simp add: session_def)
  note all = fetchMessages_no_active_thread [of None "[message_rows [other_msg]]"
      "session\<lparr>messages := [user_msg, bot_msg]\<rparr>" ?w "Some ''u1''" "Select []"]
  from all absent(1) cleared
  have call: "exec (fetchMessages None) [message_rows [other_msg]]
                (session\<lparr>messages := [user_msg, bot_msg]\<rparr>) = (session, [], Some ())"
    by simp
  from all after before absent(2) idle user
  have render: "messages (view (step (Some ''u1'') (Select []) ?w)) = [] \<and>
                map fst (inflight (step (Some ''u1'') (Select []) ?w)) = [GetThreads ''u1'']"
    by simp
  let ?v = "\<lparr>view = initial_state\<lparr>messages := [other_msg]\<rparr>, inflight = []\<rparr>"
  have unselected: "activeThreadId (view ?v) = None"
    by (simp add: initial_state_def)
  from fetchMessages_no_active_thread [of None "[]" session ?v "Some ''u1''" "Select []"]
    unselected absent(1) user
  have rerun: "messages (view (effects (Some ''u1'') ?v)) = [] \<and>
               map fst (inflight (effects (Some ''u1'') ?v)) = [GetThreads ''u1'']"
    by simp
  show ?thesis
    using absent call after before render unselected rerun by simp
qed

subsection \<open>Thread creation and thread list\<close>

text \<open>
  C4. When the gateway answers \<open>createThread\<close> without error and with the created row,
  the row becomes the head of the thread list, its id becomes the active thread id, the
  message set becomes empty, and the call returns the row's id. One request is issued.
\<close>

theorem createThread_success:
  "uid \<noteq> [] \<Longrightarrow> opt_field insert_threads_one data = Some newThread \<Longrightarrow>
   exec (createThread (Some uid) ttl) (Resolved data None # rs) s =
     (s\<lparr>threads := newThread # threads s,
        activeThreadId := Some (id_t newThread),
        messages := []\<rparr>,
      [CreateThread uid ttl], Some (Some (id_t newThread)))"
  by (simp add: createThread_def setters)

theorem createThread_success_witness:
  "''u1'' \<noteq> [] \<and>
   opt_field insert_threads_one (Some (no_data\<lparr>insert_threads_one := Some thread_t3\<rparr>))
     = Some thread_t3 \<and>
   exec (createThread (Some ''u1'') ''Jan 7, 1:05 PM'') [thread_row thread_t3]
        (session\<lparr>messages := [user_msg, bot_msg]\<rparr>) =
     (\<lparr>threads = [thread_t3, thread_t2, thread_t1], messages = [],
       activeThreadId = Some ''t3'', isLoading = False, error = None\<rparr>,
      [CreateThread ''u1'' ''Jan 7, 1:05 PM''], Some (Some ''t3''))"
proof -
  have present: "''u1'' \<noteq> []"
    by simp
  have row: "opt_field insert_threads_one (Some (no_data\<lparr>insert_threads_one := Some thread_t3\<rparr>))
               = Some thread_t3"
    by (simp add: opt_field_def)
  from createThread_success [OF present row, of "''Jan 7, 1:05 PM''" "[]"
      "session\<lparr>messages := [user_msg, bot_msg]\<rparr>"] present row
  show ?thesis
    by (simp add: thread_row_def session_def thread_t3_def)
qed

text \<open>
  C5. When the thread-list request fails, by rejection or by a reported error,
  \<open>fetchThreads\<close> ends with the error field set to a message, the loading flag false,
  and the thread list, the message set and the active thread id as they were.
\<close>

theorem fetchThreads_failure:
  "uid \<noteq> [] \<Longrightarrow> failed r \<Longrightarrow>
   exec (fetchThreads (Some uid) active) (r # rs) s =
     (s\<lparr>isLoading := False,
        error := Some (if r = Rejected then ''Failed to connect to the database.''
                       else ''Failed to fetch threads. Make sure GraphQL permissions are set up correctly.'')\<rparr>,
      [GetThreads uid], Some ())"
  by (auto dest!: failed_cases simp: fetchThreads_def setters)

theorem fetchThreads_failure_witness:
  "''u1'' \<noteq> [] \<and> failed denied \<and> failed Rejected \<and>
   exec (fetchThreads (Some ''u1'') (Some ''t1'')) [denied] session =
     (session\<lparr>error := Some
        ''Failed to fetch threads. Make sure GraphQL permissions are set up correctly.''\<rparr>,
      [GetThreads ''u1''], Some ()) \<and>
   exec (fetchThreads (Some ''u1'') None) [Rejected] initial_state =
     (\<lparr>threads = [], messages = [], activeThreadId = None, isLoading = False,
       error = Some ''Failed to connect to the database.''\<rparr>,
      [GetThreads ''u1''], Some ())"
proof -
  have present: "''u1'' \<noteq> []"
    by simp
  have reported: "failed denied"
    by (simp add: failed_def denied_def)
  have transport: "failed Rejected"
    by (simp add: failed_def)
  from fetchThreads_failure [OF present reported, of "Some ''t1''" "[]" session]
       fetchThreads_failure [OF present transport, of None "[]" initial_state]
       present reported transport
  show ?thesis
    by (simp add: denied_def session_def initial_state_def)
qed

subsection \<open>Sending a message\<close>

text \<open>
  C2. With its preconditions met, \<open>sendMessage\<close> issues its requests one at a time: the
  user-message insert alone until that has answered, then the echo insert alone until
  that has answered, then the timestamp touch. When the first insert fails, the error
  field is set and the function returns: one request was issued and threads, messages,
  active thread id and loading flag are as they were. When the first succeeds and the
  echo insert fails, the same holds with two requests issued.
\<close>

theorem sendMessage_steps_sequential_abort:
  assumes "uid \<noteq> []" and "tid \<noteq> []" and "trim text \<noteq> []"
    and "\<not> failed ok1" and "\<not> failed ok2" and "failed bad1" and "failed bad2"
  shows "exec (sendMessage (Some uid) (Some tid) text now) [] s =
           (s, [CreateMessage tid uid True (trim text)], None) \<and>
         exec (sendMessage (Some uid) (Some tid) text now) [ok1] s =
           (s, [CreateMessage tid uid True (trim text),
                CreateMessage tid uid False (trim text)], None) \<and>
         exec (sendMessage (Some uid) (Some tid) text now) [ok1, ok2] s =
           (s, [CreateMessage tid uid True (trim text),
                CreateMessage tid uid False (trim text),
                UpdateThreadTimestamp tid], None) \<and>
         exec (sendMessage (Some uid) (Some tid) text now) (bad1 # rs) s =
           (s\<lparr>error := Some ''Failed to send message.''\<rparr>,
            [CreateMessage tid uid True (trim text)], Some ()) \<and>
         exec (sendMessage (Some uid) (Some tid) text now) (ok1 # bad2 # rs) s =
           (s\<lparr>error := Some (if bad2 = Rejected then ''Failed to send message.''
                              else ''Failed to create bot response.'')\<rparr>,
            [CreateMessage tid uid True (trim text),
             CreateMessage tid uid False (trim text)], Some ())"
proof -
  obtain d1 where ok1: "ok1 = Resolved d1 None"
    using assms(4) not_failed_cases by blast
  obtain d2 where ok2: "ok2 = Resolved d2 None"
    using assms(5) not_failed_cases by blast
  from assms(6) have bad1: "bad1 = Rejected \<or> (\<exists>d e. bad1 = Resolved d (Some e))"
    by (rule failed_cases)
  from assms(7) have bad2: "bad2 = Rejected \<or> (\<exists>d e. bad2 = Resolved d (Some e))"
    by (rule failed_cases)
  show ?thesis
    using assms(1-3) ok1 ok2 bad1 bad2 by (auto simp: sendMessage_def setters)
qed

theorem sendMessage_steps_sequential_abort_witness:
  "''u1'' \<noteq> [] \<and> ''t1'' \<noteq> [] \<and> trim ''  hello  '' = ''hello'' \<and>
   \<not> failed (message_row user_msg) \<and> \<not> failed (message_row bot_msg) \<and>
   failed Rejected \<and> failed denied \<and>
   exec (sendMessage (Some ''u1'') (Some ''t1'') ''  hello  '' ''2024-01-07T10:00:02Z'') [] session =
     (session, [CreateMessage ''t1'' ''u1'' True ''hello''], None) \<and>
   exec (sendMessage (Some ''u1'') (Some ''t1'') ''  hello  '' ''2024-01-07T10:00:02Z'')
        [message_row user_msg] session =
     (session, [CreateMessage ''t1'' ''u1'' True ''hello'',
                CreateMessage ''t1'' ''u1'' False ''hello''], None) \<and>
   exec (sendMessage (Some ''u1'') (Some ''t1'') ''  hello  '' ''2024-01-07T10:00:02Z'')
        [message_row user_msg, message_row bot_msg] session =
     (session, [CreateMessage ''t1'' ''u1'' True ''hello'',
                CreateMessage ''t1'' ''u1'' False ''hello'',
                UpdateThreadTimestamp ''t1''], None) \<and>
   exec (sendMessage (Some ''u1'') (Some ''t1'') ''  hello  '' ''2024-01-07T10:00:02Z'')
        [Rejected] session =
     (session\<lparr>error := Some ''Failed to send message.''\<rparr>,
      [CreateMessage ''t1'' ''u1'' True ''hello''], Some ()) \<and>
   exec (sendMessage (Some ''u1'') (Some ''t1'') ''  hello  '' ''2024-01-07T10:00:02Z'')
        [message_row user_msg, denied] session =
     (session\<lparr>error := Some ''Failed to create bot response.''\<rparr>,
      [CreateMessage ''t1'' ''u1'' True ''hello'',
       CreateMessage ''t1'' ''u1'' False ''hello''], Some ())"
proof -
  have present: "''u1'' \<noteq> []" "''t1'' \<noteq> []"
    by simp_all
  have trimmed: "trim ''  hello  '' = ''hello''"
    by (simp add: trim_def is_ws_def)
  then have nonblank: "trim ''  hello  '' \<noteq> []"
    by simp
  have ok: "\<not> failed (message_row user_msg)" "\<not> failed (message_row bot_msg)"
    by (simp_all add: failed_def message_row_def)
  have bad: "failed Rejected" "failed denied"
    by (simp_all add: failed_def denied_def)
  have "denied \<noteq> Rejected"
    by (simp add: denied_def)
  with sendMessage_steps_sequential_abort [OF present nonblank ok bad,
      of "''2024-01-07T10:00:02Z''" session "[]"] present trimmed ok bad
  show ?thesis
    by simp
qed

text \<open>
  C6, as the code has it. When both inserts answer without error and with their rows,
  and the touch request has answered (with or without a reported error), \<open>sendMessage\<close>
  ends in the state where the two rows are appended to the message set, the user's row
  first, and every thread whose id is the active thread id captured when \<open>sendMessage\<close>
  was called has \<open>updated_at\<close> set to the current time. The thread list keeps its
  length and the thread at each position keeps its place: threads with another id are
  unchanged, and the list is not sorted again. Active thread id, loading flag and error
  are unchanged. When the touch request rejects, nothing is appended and no thread is
  changed: only the error field is set.
\<close>

theorem sendMessage_local_reflection:
  assumes "uid \<noteq> []" and "tid \<noteq> []" and "trim text \<noteq> []"
    and "opt_field insert_messages_one d1 = Some userMessage"
    and "opt_field insert_messages_one d2 = Some botMessage"
  shows "exec (sendMessage (Some uid) (Some tid) text now)
              (Resolved d1 None # Resolved d2 None # Resolved d3 e3 # rs) s =
           (s\<lparr>messages := messages s @ [userMessage, botMessage],
              threads := map (\<lambda>thread. if id_t thread = tid
                                        then thread\<lparr>updated_at := now\<rparr> else thread) (threads s)\<rparr>,
            [CreateMessage tid uid True (trim text),
             CreateMessage tid uid False (trim text),
             UpdateThreadTimestamp tid], Some ()) \<and>
         (let s' = fst (exec (sendMessage (Some uid) (Some tid) text now)
                          (Resolved d1 None # Resolved d2 None # Resolved d3 e3 # rs) s)
          in messages s' = messages s @ [userMessage, botMessage] \<and>
             length (threads s') = length (threads s) \<and>
             map id_t (threads s') = map id_t (threads s) \<and>
             (\<forall>i < length (threads s).
                threads s' ! i = (if id_t (threads s ! i) = tid
                                  then (threads s ! i)\<lparr>updated_at := now\<rparr>
                                  else threads s ! i)) \<and>
             activeThreadId s' = activeThreadId s \<and>
             isLoading s' = isLoading s \<and>
             error s' = error s) \<and>
         exec (sendMessage (Some uid) (Some tid) text now)
              (Resolved d1 None # Resolved d2 None # Rejected # rs) s =
           (s\<lparr>error := Some ''Failed to send message.''\<rparr>,
            [CreateMessage tid uid True (trim text),
             CreateMessage tid uid False (trim text),
             UpdateThreadTimestamp tid], Some ())"
proof -
  let ?touch = "\<lambda>thread. if id_t thread = tid then thread\<lparr>updated_at := now\<rparr> else thread"
  have run: "exec (sendMessage (Some uid) (Some tid) text now)
              (Resolved d1 None # Resolved d2 None # Resolved d3 e3 # rs) s =
           (s\<lparr>messages := messages s @ [userMessage, botMessage],
              threads := map ?touch (threads s)\<rparr>,
            [CreateMessage tid uid True (trim text),
             CreateMessage tid uid False (trim text),
             UpdateThreadTimestamp tid], Some ())"
    using assms by (simp add: sendMessage_def setters)
  have ids: "map id_t (map ?touch (threads s)) = map id_t (threads s)"
    by (induction "threads s") (simp_all add: comp_def)
  have rejected: "exec (sendMessage (Some uid) (Some tid) text now)
              (Resolved d1 None # Resolved d2 None # Rejected # rs) s =
           (s\<lparr>error := Some ''Failed to send message.''\<rparr>,
            [CreateMessage tid uid True (trim text),
             CreateMessage tid uid False (trim text),
             UpdateThreadTimestamp tid], Some ())"
    using assms by (simp add: sendMessage_def setters)
  show ?thesis
    unfolding run rejected using ids by (simp add: Let_def)
qed

theorem sendMessage_local_reflection_witness:
  "''u1'' \<noteq> [] \<and> ''t1'' \<noteq> [] \<and> trim ''  hello  '' = ''hello'' \<and>
   opt_field insert_messages_one (Some (no_data\<lparr>insert_messages_one := Some user_msg\<rparr>))
     = Some user_msg \<and>
   opt_field insert_messages_one (Some (no_data\<lparr>insert_messages_one := Some bot_msg\<rparr>))
     = Some bot_msg \<and>
   fst (exec (sendMessage (Some ''u1'') (Some ''t1'') ''  hello  '' ''2024-01-07T10:00:02Z'')
          [message_row user_msg, message_row bot_msg, Resolved None None] session) =
     \<lparr>threads = [thread_t2, thread_t1\<lparr>updated_at := ''2024-01-07T10:00:02Z''\<rparr>],
      messages = [user_msg, bot_msg], activeThreadId = Some ''t1'',
      isLoading = False, error = None\<rparr>"
proof -
  have present: "''u1'' \<noteq> []" "''t1'' \<noteq> []"
    by simp_all
  have trimmed: "trim ''  hello  '' = ''hello''"
    by (simp add: trim_def is_ws_def)
  then have nonblank: "trim ''  hello  '' \<noteq> []"
    by simp
  have rows:
    "opt_field insert_messages_one (Some (no_data\<lparr>insert_messages_one := Some user_msg\<rparr>))
       = Some user_msg"
    "opt_field insert_messages_one (Some (no_data\<lparr>insert_messages_one := Some bot_msg\<rparr>))
       = Some bot_msg"
    by (simp_all add: opt_field_def)
  have ids: "id_t thread_t2 \<noteq> ''t1''" "id_t thread_t1 = ''t1''"
    by (simp_all add: thread_t1_def thread_t2_def)
  from sendMessage_local_reflection [OF present nonblank rows,
      of "''2024-01-07T10:00:02Z''" None None "[]" session]
  have "fst (exec (sendMessage (Some ''u1'') (Some ''t1'') ''  hello  '' ''2024-01-07T10:00:02Z'')
          [message_row user_msg, message_row bot_msg, Resolved None None] session) =
        session\<lparr>messages := messages session @ [user_msg, bot_msg],
          threads := map (\<lambda>thread. if id_t thread = ''t1''
                                    then thread\<lparr>updated_at := ''2024-01-07T10:00:02Z''\<rparr>
                                    else thread) (threads session)\<rparr>"
    by (simp add: message_row_def)
  then show ?thesis
    using present trimmed rows ids by (simp add: session_def)
qed

text \<open>
  C6, as the claim has it, fails when the touch request rejects. Both inserts answered
  without error and with their rows; the message set is still empty, and thread \<open>t1\<close>
  keeps the \<open>updated_at\<close> it had.
\<close>

theorem sendMessage_reflection_skipped_counterexample:
  "opt_field insert_messages_one (Some (no_data\<lparr>insert_messages_one := Some user_msg\<rparr>))
     = Some user_msg \<and>
   opt_field insert_messages_one (Some (no_data\<lparr>insert_messages_one := Some bot_msg\<rparr>))
     = Some bot_msg \<and>
   messages session = [] \<and>
   messages (fst (exec (sendMessage (Some ''u1'') (Some ''t1'') ''hello'' ''2024-01-07T10:00:02Z'')
       [Resolved (Some (no_data\<lparr>insert_messages_one := Some user_msg\<rparr>)) None,
        Resolved (Some (no_data\<lparr>insert_messages_one := Some bot_msg\<rparr>)) None,
        Rejected] session)) = [] \<and>
   map updated_at (threads (fst (exec
       (sendMessage (Some ''u1'') (Some ''t1'') ''hello'' ''2024-01-07T10:00:02Z'')
       [Resolved (Some (no_data\<lparr>insert_messages_one := Some user_msg\<rparr>)) None,
        Resolved (Some (no_data\<lparr>insert_messages_one := Some bot_msg\<rparr>)) None,
        Rejected] session))) = [''2024-01-06T09:10:00Z'', ''2024-01-05T15:45:00Z'']"
  by (simp add: sendMessage_def setters session_def opt_field_def trim_def is_ws_def
        thread_t1_def thread_t2_def)

text \<open>
  C7, as the code has it. A reported error in the response of the timestamp touch is
  not looked at: both rows are appended and the thread's \<open>updated_at\<close> is set locally,
  and no error is set. A touch request that rejects reaches the \<^verbatim>\<open>catch\<close> of
  \<open>sendMessage\<close>: the error field is set and nothing is appended or updated locally.
\<close>

theorem sendMessage_touch_failure:
  assumes "uid \<noteq> []" and "tid \<noteq> []" and "trim text \<noteq> []"
    and "opt_field insert_messages_one d1 = Some userMessage"
    and "opt_field insert_messages_one d2 = Some botMessage"
  shows "exec (sendMessage (Some uid) (Some tid) text now)
              (Resolved d1 None # Resolved d2 None # Resolved d3 (Some e3) # rs) s =
           (s\<lparr>messages := messages s @ [userMessage, botMessage],
              threads := map (\<lambda>thread. if id_t thread = tid
                                        then thread\<lparr>updated_at := now\<rparr> else thread) (threads s)\<rparr>,
            [CreateMessage tid uid True (trim text),
             CreateMessage tid uid False (trim text),
             UpdateThreadTimestamp tid], Some ()) \<and>
         exec (sendMessage (Some uid) (Some tid) text now)
              (Resolved d1 None # Resolved d2 None # Rejected # rs) s =
           (s\<lparr>error := Some ''Failed to send message.''\<rparr>,
            [CreateMessage tid uid True (trim text),
             CreateMessage tid uid False (trim text),
             UpdateThreadTimestamp tid], Some ())"
  using assms by (simp add: sendMessage_def setters)

theorem sendMessage_touch_failure_witness:
  "''u1'' \<noteq> [] \<and> ''t1'' \<noteq> [] \<and> trim ''  hello  '' = ''hello'' \<and>
   opt_field insert_messages_one (Some (no_data\<lparr>insert_messages_one := Some user_msg\<rparr>))
     = Some user_msg \<and>
   opt_field insert_messages_one (Some (no_data\<lparr>insert_messages_one := Some bot_msg\<rparr>))
     = Some bot_msg \<and>
   exec (sendMessage (Some ''u1'') (Some ''t1'') ''  hello  '' ''2024-01-07T10:00:02Z'')
        [message_row user_msg, message_row bot_msg, denied] session =
     (\<lparr>threads = [thread_t2, thread_t1\<lparr>updated_at := ''2024-01-07T10:00:02Z''\<rparr>],
       messages = [user_msg, bot_msg], activeThreadId = Some ''t1'',
       isLoading = False, error = None\<rparr>,
      [CreateMessage ''t1'' ''u1'' True ''hello'',
       CreateMessage ''t1'' ''u1'' False ''hello'',
       UpdateThreadTimestamp ''t1''], Some ()) \<and>
   exec (sendMessage (Some ''u1'') (Some ''t1'') ''  hello  '' ''2024-01-07T10:00:02Z'')
        [message_row user_msg, message_row bot_msg, Rejected] session =
     (session\<lparr>error := Some ''Failed to send message.''\<rparr>,
      [CreateMessage ''t1'' ''u1'' True ''hello'',
       CreateMessage ''t1'' ''u1'' False ''hello'',
       UpdateThreadTimestamp ''t1''], Some ())"
proof -
  have present: "''u1'' \<noteq> []" "''t1'' \<noteq> []"
    by simp_all
  have trimmed: "trim ''  hello  '' = ''hello''"
    by (simp add: trim_def is_ws_def)
  then have nonblank: "trim ''  hello  '' \<noteq> []"
    by simp
  have rows:
    "opt_field insert_messages_one (Some (no_data\<lparr>insert_messages_one := Some user_msg\<rparr>))
       = Some user_msg"
    "opt_field insert_messages_one (Some (no_data\<lparr>insert_messages_one := Some bot_msg\<rparr>))
       = Some bot_msg"
    by (simp_all add: opt_field_def)
  have ids: "id_t thread_t2 \<noteq> ''t1''" "id_t thread_t1 = ''t1''"
    by (simp_all add: thread_t1_def thread_t2_def)
  from sendMessage_touch_failure [OF present nonblank rows,
      of "''2024-01-07T10:00:02Z''" None "GqlError ''permission denied''" "[]" session]
  show ?thesis
    using present trimmed rows ids by (simp add: message_row_def denied_def session_def)
qed

text \<open>
  C7, as the claim has it, fails when the touch request rejects: after two successful
  inserts the two rows are not appended, the thread list is as before, and the error
  field is set.
\<close>

theorem sendMessage_touch_rejected_counterexample:
  "\<not> failed (message_row user_msg) \<and> \<not> failed (message_row bot_msg) \<and> failed Rejected \<and>
   messages (fst (exec (sendMessage (Some ''u1'') (Some ''t1'') ''  hello  '' ''2024-01-07T10:00:02Z'')
                    [message_row user_msg, message_row bot_msg, Rejected] session))
     \<noteq> messages session @ [user_msg, bot_msg] \<and>
   threads (fst (exec (sendMessage (Some ''u1'') (Some ''t1'') ''  hello  '' ''2024-01-07T10:00:02Z'')
                    [message_row user_msg, message_row bot_msg, Rejected] session))
     = [thread_t2, thread_t1] \<and>
   error (fst (exec (sendMessage (Some ''u1'') (Some ''t1'') ''  hello  '' ''2024-01-07T10:00:02Z'')
                    [message_row user_msg, message_row bot_msg, Rejected] session))
     = Some ''Failed to send message.''"
  by (simp add: sendMessage_def setters failed_def message_row_def session_def opt_field_def
        trim_def is_ws_def)

text \<open>
  C10, as the code has it. When both inserts answer without error but one of the two
  responses has no row, nothing is reflected locally: whatever the touch request does,
  the message set and the thread list are as they were. When the touch request has
  answered, the whole state, the error field included, is as it was; when it rejects,
  the error field is set and nothing else changes. All three requests were issued.
\<close>

theorem sendMessage_missing_row:
  assumes "uid \<noteq> []" and "tid \<noteq> []" and "trim text \<noteq> []"
    and "opt_field insert_messages_one d1 = None \<or> opt_field insert_messages_one d2 = None"
  shows "exec (sendMessage (Some uid) (Some tid) text now)
              (Resolved d1 None # Resolved d2 None # Resolved d3 e3 # rs) s =
           (s, [CreateMessage tid uid True (trim text),
                CreateMessage tid uid False (trim text),
                UpdateThreadTimestamp tid], Some ()) \<and>
         messages (fst (exec (sendMessage (Some uid) (Some tid) text now)
                          (Resolved d1 None # Resolved d2 None # r3 # rs) s)) = messages s \<and>
         threads (fst (exec (sendMessage (Some uid) (Some tid) text now)
                         (Resolved d1 None # Resolved d2 None # r3 # rs) s)) = threads s \<and>
         exec (sendMessage (Some uid) (Some tid) text now)
              (Resolved d1 None # Resolved d2 None # Rejected # rs) s =
           (s\<lparr>error := Some ''Failed to send message.''\<rparr>,
            [CreateMessage tid uid True (trim text),
             CreateMessage tid uid False (trim text),
             UpdateThreadTimestamp tid], Some ())"
  using assms
  by (cases r3) (auto simp: sendMessage_def setters split: option.splits)

theorem sendMessage_missing_row_witness:
  "''u1'' \<noteq> [] \<and> ''t1'' \<noteq> [] \<and> trim ''  hello  '' = ''hello'' \<and>
   opt_field insert_messages_one (Some no_data) = None \<and>
   exec (sendMessage (Some ''u1'') (Some ''t1'') ''  hello  '' ''2024-01-07T10:00:02Z'')
        [message_row user_msg, Resolved (Some no_data) None, Resolved None None] session =
     (session, [CreateMessage ''t1'' ''u1'' True ''hello'',
                CreateMessage ''t1'' ''u1'' False ''hello'',
                UpdateThreadTimestamp ''t1''], Some ()) \<and>
   exec (sendMessage (Some ''u1'') (Some ''t1'') ''  hello  '' ''2024-01-07T10:00:02Z'')
        [Resolved None None, message_row bot_msg, Resolved None None] session =
     (session, [CreateMessage ''t1'' ''u1'' True ''hello'',
                CreateMessage ''t1'' ''u1'' False ''hello'',
                UpdateThreadTimestamp ''t1''], Some ())"
proof -
  have present: "''u1'' \<noteq> []" "''t1'' \<noteq> []"
    by simp_all
  have trimmed: "trim ''  hello  '' = ''hello''"
    by (simp add: trim_def is_ws_def)
  then have nonblank: "trim ''  hello  '' \<noteq> []"
    by simp
  have missing: "opt_field insert_messages_one (Some no_data) = None"
    by (simp add: opt_field_def no_data_def)
  have echo_missing:
    "opt_field insert_messages_one (Some (no_data\<lparr>insert_messages_one := Some user_msg\<rparr>)) = None
     \<or> opt_field insert_messages_one (Some no_data) = None"
    using missing by simp
  have user_missing:
    "opt_field insert_messages_one None = None
     \<or> opt_field insert_messages_one (Some (no_data\<lparr>insert_messages_one := Some bot_msg\<rparr>)) = None"
    by (simp add: opt_field_def)
  from sendMessage_missing_row [OF present nonblank echo_missing,
         of "''2024-01-07T10:00:02Z''" None None "[]" session Rejected]
       sendMessage_missing_row [OF present nonblank user_missing,
         of "''2024-01-07T10:00:02Z''" None None "[]" session Rejected]
  show ?thesis
    using present trimmed missing by (simp add: message_row_def)
qed

text \<open>
  C10, as the claim has it, fails when the touch request rejects: the echo insert
  answered without error and without a row, no error was set before the call, and the
  call ends with the error field set.
\<close>

theorem sendMessage_missing_row_error_counterexample:
  "opt_field insert_messages_one (Some no_data) = None \<and>
   error session = None \<and>
   error (fst (exec (sendMessage (Some ''u1'') (Some ''t1'') ''hello'' ''2024-01-07T10:00:02Z'')
       [Resolved (Some (no_data\<lparr>insert_messages_one := Some user_msg\<rparr>)) None,
        Resolved (Some no_data) None,
        Rejected] session)) = Some ''Failed to send message.''"
  by (simp add: sendMessage_def setters session_def opt_field_def no_data_def trim_def is_ws_def)

subsection \<open>Message fetches in flight\<close>

lemma fetchMessages_Await:
  "tid \<noteq> [] \<Longrightarrow> fetchMessages (Some tid) = Await (GetMessages tid) messages_reply"
  by (simp add: fetchMessages_def messages_reply_def fun_eq_iff)

lemma start_fetchMessages:
  "tid \<noteq> [] \<Longrightarrow>
   start (fetchMessages (Some tid)) w = w\<lparr>inflight := inflight w @ [(GetMessages tid, messages_reply)]\<rparr>"
  by (simp add: fetchMessages_Await start_def)

lemma start_fetchThreads:
  "truthy user_id \<Longrightarrow>
   \<exists>q k. start (fetchThreads user_id active) w =
     w\<lparr>view := (view w)\<lparr>isLoading := True, error := None\<rparr>, inflight := inflight w @ [(q, k)]\<rparr>"
  by (cases user_id) (auto simp: fetchThreads_def start_def truthy_def setters)

text \<open>
  The effects after a render with a non-empty active thread id: the thread fetch joins
  the requests in flight when there is a user, then the message fetch for that id does.
\<close>

lemma effects_Some:
  assumes "tid \<noteq> []" and "activeThreadId (view w) = Some tid"
  shows "\<exists>pre. length pre = (if truthy user_id then 1 else 0) \<and>
     inflight (effects user_id w) = inflight w @ pre @ [(GetMessages tid, messages_reply)] \<and>
     activeThreadId (view (effects user_id w)) = Some tid \<and>
     messages (view (effects user_id w)) = messages (view w)"
proof (cases "truthy user_id")
  case True
  from start_fetchThreads [OF True, of "Some tid" w] obtain q k where
    "start (fetchThreads user_id (Some tid)) w =
       w\<lparr>view := (view w)\<lparr>isLoading := True, error := None\<rparr>, inflight := inflight w @ [(q, k)]\<rparr>"
    by blast
  then show ?thesis
    using True assms
    by (intro exI [of _ "[(q, k)]"]) (simp add: effects_def start_fetchMessages Let_def)
next
  case False
  then show ?thesis
    using assms
    by (intro exI [of _ "[]"]) (simp add: effects_def start_fetchMessages Let_def)
qed

lemma step_Select:
  assumes "tid \<noteq> []" and "activeThreadId (view w) \<noteq> Some tid"
  shows "\<exists>pre. length pre = (if truthy user_id then 1 else 0) \<and>
     inflight (step user_id (Select tid) w) = inflight w @ pre @ [(GetMessages tid, messages_reply)] \<and>
     activeThreadId (view (step user_id (Select tid) w)) = Some tid \<and>
     messages (view (step user_id (Select tid) w)) = messages (view w)"
proof -
  let ?w' = "w\<lparr>view := (view w)\<lparr>activeThreadId := Some tid\<rparr>\<rparr>"
  have selected: "handle user_id (Select tid) w = ?w'"
    by (simp add: handle_def selectThread_def start_def setters)
  have rendered: "step user_id (Select tid) w = effects user_id ?w'"
    using assms(2) by (simp add: step_def selected Let_def)
  show ?thesis
    using effects_Some [of tid ?w' user_id] assms(1) by (simp add: rendered)
qed

text \<open>
  A message fetch that resolves without error installs its rows, whatever the active
  thread id is by then; the active thread id does not change, so no effect runs.
\<close>

lemma step_Settle_messages:
  assumes "i < length (inflight w)" and "snd (inflight w ! i) = messages_reply"
  shows "step user_id (Settle i (Resolved d None)) w =
         w\<lparr>view := (view w)\<lparr>messages := or_empty (opt_field d_messages d)\<rparr>,
           inflight := take i (inflight w) @ drop (Suc i) (inflight w)\<rparr>"
  using assms
  by (simp add: step_def handle_def settle_def start_def messages_reply_def setters Let_def)

text \<open>
  C1, as the code has it. After the active thread changes to \<open>t1\<close> and then to \<open>t2\<close>
  (two different non-empty ids, the first a change), both message fetches are in flight
  and \<open>t2\<close> is active. The message set after both have resolved without error is that of
  the fetch that resolved last: the rows for \<open>t2\<close> when the fetch for \<open>t1\<close> resolves
  first, and the rows for \<open>t1\<close>, with \<open>t2\<close> still active, when the fetch for \<open>t1\<close>
  resolves after the one for \<open>t2\<close>. \<open>i1\<close> and \<open>i2\<close> are the positions of the two fetches
  among the requests in flight.
\<close>

theorem fetchMessages_last_resolution_wins:
  assumes "t1 \<noteq> []" and "t2 \<noteq> []" and "t1 \<noteq> t2" and "activeThreadId (view w) \<noteq> Some t1"
  shows "let n = length (inflight w);
             m = (if truthy user_id then 1 else 0);
             i1 = n + m;
             i2 = n + 2 * m + 1;
             w2 = run user_id [Select t1, Select t2] w
         in activeThreadId (view w2) = Some t2 \<and>
            length (inflight w2) = i2 + 1 \<and>
            fst (inflight w2 ! i1) = GetMessages t1 \<and>
            fst (inflight w2 ! i2) = GetMessages t2 \<and>
            messages (view (run user_id [Settle i1 (Resolved d1 None),
                                         Settle (i2 - 1) (Resolved d2 None)] w2))
              = or_empty (opt_field d_messages d2) \<and>
            messages (view (run user_id [Settle i2 (Resolved d2 None),
                                         Settle i1 (Resolved d1 None)] w2))
              = or_empty (opt_field d_messages d1) \<and>
            activeThreadId (view (run user_id [Settle i2 (Resolved d2 None),
                                               Settle i1 (Resolved d1 None)] w2))
              = Some t2"
proof -
  define n where "n = length (inflight w)"
  define m :: nat where "m = (if truthy user_id then 1 else 0)"
  define wa where "wa = step user_id (Select t1) w"
  define wb where "wb = step user_id (Select t2) wa"
  from step_Select [OF assms(1) assms(4), of user_id] obtain pa where
    pa: "length pa = m" "inflight wa = inflight w @ pa @ [(GetMessages t1, messages_reply)]"
        "activeThreadId (view wa) = Some t1"
    unfolding wa_def m_def by blast
  have "activeThreadId (view wa) \<noteq> Some t2"
    using pa(3) assms(3) by simp
  from step_Select [OF assms(2) this, of user_id] obtain pb where
    pb: "length pb = m" "inflight wb = inflight wa @ pb @ [(GetMessages t2, messages_reply)]"
        "activeThreadId (view wb) = Some t2"
    unfolding wb_def m_def by blast
  have flight: "inflight wb = inflight w @ pa @ [(GetMessages t1, messages_reply)] @ pb
                  @ [(GetMessages t2, messages_reply)]"
    using pa(2) pb(2) by simp
  have len: "length (inflight wb) = n + 2 * m + 2"
    using flight pa(1) pb(1) by (simp add: n_def)
  have at1: "inflight wb ! (n + m) = (GetMessages t1, messages_reply)"
    using flight pa(1) by (simp add: n_def nth_append)
  have at2: "inflight wb ! (n + 2 * m + 1) = (GetMessages t2, messages_reply)"
    using flight pa(1) pb(1) by (simp add: n_def nth_append)
  have without1: "take (n + m) (inflight wb) @ drop (Suc (n + m)) (inflight wb)
                    = inflight w @ pa @ pb @ [(GetMessages t2, messages_reply)]"
    using flight pa(1) by (simp add: n_def)
  have without2: "take (n + 2 * m + 1) (inflight wb) @ drop (Suc (n + 2 * m + 1)) (inflight wb)
                    = inflight w @ pa @ [(GetMessages t1, messages_reply)] @ pb"
    using flight pa(1) pb(1) by (simp add: n_def)
  have first1: "step user_id (Settle (n + m) (Resolved d1 None)) wb =
        wb\<lparr>view := (view wb)\<lparr>messages := or_empty (opt_field d_messages d1)\<rparr>,
           inflight := inflight w @ pa @ pb @ [(GetMessages t2, messages_reply)]\<rparr>"
    using step_Settle_messages [of "n + m" wb user_id d1] len at1 without1 by simp
  have first2: "step user_id (Settle (n + 2 * m + 1) (Resolved d2 None)) wb =
        wb\<lparr>view := (view wb)\<lparr>messages := or_empty (opt_field d_messages d2)\<rparr>,
           inflight := inflight w @ pa @ [(GetMessages t1, messages_reply)] @ pb\<rparr>"
    using step_Settle_messages [of "n + 2 * m + 1" wb user_id d2] len at2 without2 by simp
  have in_order: "messages (view (step user_id (Settle (n + 2 * m) (Resolved d2 None))
                    (step user_id (Settle (n + m) (Resolved d1 None)) wb)))
                  = or_empty (opt_field d_messages d2)"
    unfolding first1
    by (subst step_Settle_messages) (simp_all add: pa(1) pb(1) n_def nth_append)
  have stale: "step user_id (Settle (n + m) (Resolved d1 None))
                 (step user_id (Settle (n + 2 * m + 1) (Resolved d2 None)) wb)
               = wb\<lparr>view := (view wb)\<lparr>messages := or_empty (opt_field d_messages d1)\<rparr>,
                    inflight := inflight w @ pa @ pb\<rparr>"
    unfolding first2
    by (subst step_Settle_messages) (simp_all add: pa(1) pb(1) n_def nth_append)
  show ?thesis
    using pb(3) len at1 at2 in_order stale
    by (simp add: Let_def n_def [symmetric] m_def [symmetric] wa_def [symmetric]
          wb_def [symmetric])
qed

text \<open>After the first render for user \<open>u1\<close>: the initial state, and one thread fetch in flight.\<close>

lemma mount_user:
  "view (mount (Some ''u1'')) = initial_state \<and>
   map fst (inflight (mount (Some ''u1''))) = [GetThreads ''u1'']"
  by (simp add: mount_def effects_def start_def fetchThreads_def fetchMessages_def truthy_def
        setters initial_state_def Let_def)

theorem fetchMessages_last_resolution_wins_witness:
  "''t1'' \<noteq> [] \<and> ''t2'' \<noteq> [] \<and> ''t1'' \<noteq> ''t2'' \<and>
   activeThreadId (view (mount (Some ''u1''))) \<noteq> Some ''t1'' \<and>
   messages (view (run (Some ''u1'')
       [Settle 2 (message_rows [user_msg]), Settle 3 (message_rows [other_msg])]
       (run (Some ''u1'') [Select ''t1'', Select ''t2''] (mount (Some ''u1''))))) = [other_msg] \<and>
   messages (view (run (Some ''u1'')
       [Settle 4 (message_rows [other_msg]), Settle 2 (message_rows [user_msg])]
       (run (Some ''u1'') [Select ''t1'', Select ''t2''] (mount (Some ''u1''))))) = [user_msg]"
proof -
  have ids: "''t1'' \<noteq> []" "''t2'' \<noteq> []" "''t1'' \<noteq> ''t2''"
    by simp_all
  have fresh: "activeThreadId (view (mount (Some ''u1''))) \<noteq> Some ''t1''"
    using mount_user by (simp add: initial_state_def)
  have "length (map fst (inflight (mount (Some ''u1'')))) = 1"
    using mount_user by simp
  then have one: "length (inflight (mount (Some ''u1''))) = 1"
    by simp
  have user: "truthy (Some ''u1'')"
    by (simp add: truthy_def)
  from fetchMessages_last_resolution_wins [OF ids fresh, of "Some ''u1''"
      "Some (no_data\<lparr>d_messages := Some [user_msg]\<rparr>)"
      "Some (no_data\<lparr>d_messages := Some [other_msg]\<rparr>)"]
  show ?thesis
    using ids fresh
    by (simp add: Let_def one user message_rows_def or_empty_def opt_field_def eval_nat_numeral)
qed

text \<open>
  C1, as the claim has it, fails. User \<open>u1\<close> selects \<open>t1\<close> and then \<open>t2\<close>; the fetch for
  \<open>t2\<close> (position 4) resolves, then the fetch for \<open>t1\<close> (position 2) resolves. The
  active thread is \<open>t2\<close> and the message set is the row of \<open>t1\<close>.
\<close>

theorem fetchMessages_stale_overwrite_counterexample:
  "map fst (inflight (run (Some ''u1'') [Select ''t1'', Select ''t2''] (mount (Some ''u1'')))) =
     [GetThreads ''u1'', GetThreads ''u1'', GetMessages ''t1'', GetThreads ''u1'',
      GetMessages ''t2''] \<and>
   activeThreadId (view (run (Some ''u1'')
       [Select ''t1'', Select ''t2'',
        Settle 4 (message_rows [other_msg]), Settle 2 (message_rows [user_msg])]
       (mount (Some ''u1'')))) = Some ''t2'' \<and>
   messages (view (run (Some ''u1'')
       [Select ''t1'', Select ''t2'',
        Settle 4 (message_rows [other_msg]), Settle 2 (message_rows [user_msg])]
       (mount (Some ''u1'')))) = [user_msg] \<and>
   thread_id user_msg = ''t1'' \<and> thread_id other_msg = ''t2''"
  by (simp add: mount_def effects_def step_def handle_def settle_def start_def
        fetchMessages_def fetchThreads_def selectThread_def truthy_def initial_state_def
        setters message_rows_def no_data_def user_msg_def other_msg_def
        or_empty_def opt_field_def Let_def)

end
